theory Spec2Isabelle
  imports Main "HOL-Library.Word"
begin

unbundle bit_operations_syntax

section \<open>The WebP decode bridge (lib/webp\_decode.c)\<close>

text \<open>
  The source is a single C function, \<^verbatim>\<open>webp_decode_rgba\<close>, compiled with Emscripten. It
  checks its arguments, asks libwebp for the image dimensions (\<^verbatim>\<open>WebPGetInfo\<close>), asks libwebp
  to decode (\<^verbatim>\<open>WebPDecodeRGBA\<close>) and writes the result through three caller-supplied
  pointers. libwebp itself is not part of the source: its two entry points are parameters
  of the model. The file's second function, \<^verbatim>\<open>webp_free\<close>, only forwards its argument to
  libwebp's \<^verbatim>\<open>WebPFree\<close> and plays no part in the properties below.
\<close>

subsection \<open>Values, memory and effects\<close>

text \<open>
  The target is Emscripten's wasm32: pointers, \<^verbatim>\<open>int\<close> and \<^verbatim>\<open>size_t\<close> are 32 bits
  wide, \<^verbatim>\<open>int\<close> is read as two's complement with \<open>sint\<close>, the null pointer is 0, and
  memory is an array of bytes in little-endian order.
\<close>

type_synonym addr = "32 word"
type_synonym uint8_t = "8 word"
type_synonym size_t = "32 word"
type_synonym cint = "32 word"

abbreviation NULL :: addr where
  "NULL \<equiv> 0"

text \<open>
  The caller's memory maps each byte address to a byte. The encoded image and the three
  output slots all live in it, so a call whose pointers overlap is a call of the model too.
  A 32-bit store at \<open>p\<close> writes the four bytes at \<open>p\<close>, \<open>p + 1\<close>, \<open>p + 2\<close>, \<open>p + 3\<close>,
  least significant first; a 32-bit load reads them back. Byte addresses are natural
  numbers, so the four bytes of a slot never wrap around; every address is taken to be
  backed by memory (a trap on an access outside the linear memory is not modelled).
\<close>

definition store32 :: "addr \<Rightarrow> 32 word \<Rightarrow> (nat \<Rightarrow> uint8_t) \<Rightarrow> (nat \<Rightarrow> uint8_t)" where
  "store32 p v m = m(unat p := ucast v,
                     unat p + 1 := ucast (drop_bit 8 v),
                     unat p + 2 := ucast (drop_bit 16 v),
                     unat p + 3 := ucast (drop_bit 24 v))"

definition load32 :: "(nat \<Rightarrow> uint8_t) \<Rightarrow> addr \<Rightarrow> 32 word" where
  "load32 m p = ucast (m (unat p)) OR push_bit 8 (ucast (m (unat p + 1)))
                OR push_bit 16 (ucast (m (unat p + 2))) OR push_bit 24 (ucast (m (unat p + 3)))"

text \<open>The bytes a 32-bit slot at \<open>p\<close> occupies.\<close>

definition slot_range :: "addr \<Rightarrow> nat set" where
  "slot_range p = {unat p ..< unat p + 4}"

text \<open>The values the wrapper stores: an \<^verbatim>\<open>int\<close> or a pointer, either one 32 bits.\<close>

datatype val = VInt cint | VPtr addr

fun bits_of :: "val \<Rightarrow> 32 word" where
  "bits_of (VInt i) = i"
| "bits_of (VPtr p) = p"

text \<open>
  What a call does beyond returning: the library calls it makes (with what the library
  answered) and the stores it performs through its pointer arguments, in program order.
\<close>

datatype event =
    is_Call_WebPGetInfo: Call_WebPGetInfo addr size_t cint
  | is_Call_WebPDecodeRGBA: Call_WebPDecodeRGBA addr size_t addr
  | is_Store: Store addr val

text \<open>
  The state: the caller's memory, the pixel buffers libwebp has allocated (keyed by
  their base pointer; a freshly allocated block is an object of its own and is kept apart
  from the caller's bytes), and the effects so far.
\<close>

record state =
  mem :: "nat \<Rightarrow> uint8_t"
  bufs :: "addr \<Rightarrow> uint8_t list option"
  trace :: "event list"

subsection \<open>libwebp as a parameter\<close>

text \<open>
  \<^verbatim>\<open>int WebPGetInfo(const uint8_t* data, size_t data_size, int* width, int* height)\<close> and
  \<^verbatim>\<open>uint8_t* WebPDecodeRGBA(const uint8_t* data, size_t data_size, int* width, int* height)\<close>.
  Both read memory through \<^verbatim>\<open>data\<close>; the wrapper hands them the addresses of its locals
  \<^verbatim>\<open>w\<close> and \<^verbatim>\<open>h\<close>, so each takes the current pair \<open>(w, h)\<close> and returns the pair it
  leaves there. \<open>WebPGetInfo\<close> returns its status; \<open>WebPDecodeRGBA\<close> returns the pointer
  (\<open>NULL\<close> on failure) and the bytes of the buffer it allocated. Neither is given a way
  to write the caller's memory: \<^verbatim>\<open>data\<close> points to \<^verbatim>\<open>const\<close> bytes, and the only other
  pointers they receive are to the wrapper's locals. Nothing else is fixed about them; what
  a property needs beyond this is stated as a hypothesis on the parameter.
\<close>

record libwebp =
  WebPGetInfo :: "(nat \<Rightarrow> uint8_t) \<Rightarrow> addr \<Rightarrow> size_t \<Rightarrow> cint \<times> cint \<Rightarrow> cint \<times> (cint \<times> cint)"
  WebPDecodeRGBA :: "(nat \<Rightarrow> uint8_t) \<Rightarrow> addr \<Rightarrow> size_t \<Rightarrow> cint \<times> cint
                       \<Rightarrow> (addr \<times> uint8_t list) \<times> (cint \<times> cint)"

definition call_WebPGetInfo ::
  "libwebp \<Rightarrow> addr \<Rightarrow> size_t \<Rightarrow> cint \<times> cint \<Rightarrow> state \<Rightarrow> cint \<times> (cint \<times> cint) \<times> state" where
  "call_WebPGetInfo lib data data_size wh s =
     (case WebPGetInfo lib (mem s) data data_size wh of
        (ok, wh') \<Rightarrow> (ok, wh', s\<lparr>trace := trace s @ [Call_WebPGetInfo data data_size ok]\<rparr>))"

definition call_WebPDecodeRGBA ::
  "libwebp \<Rightarrow> addr \<Rightarrow> size_t \<Rightarrow> cint \<times> cint \<Rightarrow> state \<Rightarrow> addr \<times> (cint \<times> cint) \<times> state" where
  "call_WebPDecodeRGBA lib data data_size wh s =
     (case WebPDecodeRGBA lib (mem s) data data_size wh of
        ((rgba, px), wh') \<Rightarrow>
          (rgba, wh',
           s\<lparr>bufs := (if rgba = NULL then bufs s else (bufs s)(rgba := Some px)),
             trace := trace s @ [Call_WebPDecodeRGBA data data_size rgba]\<rparr>))"

text \<open>
  A store through a pointer to a 32-bit object, \<^verbatim>\<open>*p = v\<close>: four bytes of memory are
  written.
\<close>

definition store :: "addr \<Rightarrow> val \<Rightarrow> state \<Rightarrow> state" where
  "store p v s = s\<lparr>mem := store32 p (bits_of v) (mem s), trace := trace s @ [Store p v]\<rparr>"

subsection \<open>The wrapper\<close>

text \<open>
  \<^verbatim>\<open>
  int webp_decode_rgba(const uint8_t* webp_data, size_t data_size,
                       uint8_t** out_rgba, int* width, int* height) {
    if (!webp_data || data_size == 0 || !out_rgba || !width || !height) return 0;
    int w = 0, h = 0;
    if (!WebPGetInfo(webp_data, data_size, &w, &h) || w <= 0 || h <= 0) return 0;
    uint8_t* rgba = WebPDecodeRGBA(webp_data, data_size, &w, &h);
    if (!rgba) return 0;
    *out_rgba = rgba;
    *width = w;
    *height = h;
    return 1;
  }
  \<close>
\<close>

definition webp_decode_rgba ::
  "libwebp \<Rightarrow> addr \<Rightarrow> size_t \<Rightarrow> addr \<Rightarrow> addr \<Rightarrow> addr \<Rightarrow> state \<Rightarrow> cint \<times> state" where
  "webp_decode_rgba lib webp_data data_size out_rgba width height s =
     (if webp_data = NULL \<or> data_size = 0 \<or> out_rgba = NULL \<or> width = NULL \<or> height = NULL
      then (0, s)
      else
        case call_WebPGetInfo lib webp_data data_size (0, 0) s of
          (ok, (w, h), s1) \<Rightarrow>
            if ok = 0 \<or> sint w \<le> 0 \<or> sint h \<le> 0 then (0, s1)
            else
              case call_WebPDecodeRGBA lib webp_data data_size (w, h) s1 of
                (rgba, (w', h'), s2) \<Rightarrow>
                  if rgba = NULL then (0, s2)
                  else
                    (1, store height (VInt h') (store width (VInt w')
                          (store out_rgba (VPtr rgba) s2))))"

subsection \<open>Observations on a call\<close>

text \<open>The effects a call added to the trace.\<close>

definition new_events :: "state \<Rightarrow> state \<Rightarrow> event list" where
  "new_events s s' = drop (length (trace s)) (trace s')"

text \<open>The bytes the encoded image occupies, and their contents.\<close>

definition input_range :: "addr \<Rightarrow> size_t \<Rightarrow> nat set" where
  "input_range data data_size = {unat data ..< unat data + unat data_size}"

definition input_bytes :: "(nat \<Rightarrow> uint8_t) \<Rightarrow> addr \<Rightarrow> size_t \<Rightarrow> uint8_t list" where
  "input_bytes m data data_size = map (\<lambda>i. m (unat data + i)) [0 ..< unat data_size]"

text \<open>The bytes of the three output slots, and when no two of the slots share a byte.\<close>

definition output_range :: "addr \<Rightarrow> addr \<Rightarrow> addr \<Rightarrow> nat set" where
  "output_range out_rgba width height =
     slot_range out_rgba \<union> slot_range width \<union> slot_range height"

definition slots_apart :: "addr \<Rightarrow> addr \<Rightarrow> addr \<Rightarrow> bool" where
  "slots_apart out_rgba width height \<longleftrightarrow>
     slot_range out_rgba \<inter> slot_range width = {} \<and>
     slot_range out_rgba \<inter> slot_range height = {} \<and>
     slot_range width \<inter> slot_range height = {}"

text \<open>
  What a call produced for its caller, read off its effects: the \<^verbatim>\<open>int\<close> values it
  stored (the dimensions), and the contents of every pixel buffer whose pointer it stored.
\<close>

fun dimensions_written :: "event list \<Rightarrow> cint list" where
  "dimensions_written [] = []"
| "dimensions_written (Store p (VInt i) # evs) = i # dimensions_written evs"
| "dimensions_written (e # evs) = dimensions_written evs"

fun pixels_written :: "(addr \<Rightarrow> uint8_t list option) \<Rightarrow> event list \<Rightarrow> uint8_t list option list" where
  "pixels_written b [] = []"
| "pixels_written b (Store p (VPtr q) # evs) = b q # pixels_written b evs"
| "pixels_written b (e # evs) = pixels_written b evs"

subsection \<open>What is assumed of libwebp\<close>

text \<open>
  Modelled from the spec: libwebp's decoder (\<^verbatim>\<open>WebPGetInfo\<close>, \<^verbatim>\<open>WebPDecodeRGBA\<close>) is
  missing from the source. The spec's output contract (section 6: on success a pixel buffer,
  RGBA8, row-major, of width*height*4 bytes, with width and height; section 8: the decoded
  width and height equal the dimensions declared in the container header) is taken as a
  contract on the two entry points: when \<open>WebPDecodeRGBA\<close> returns a buffer, the
  dimensions it reports are the ones \<open>WebPGetInfo\<close> reads from the header of the same
  data, and the buffer holds four bytes for each of its width*height pixels.
\<close>

definition libwebp_output_contract :: "libwebp \<Rightarrow> bool" where
  "libwebp_output_contract lib \<longleftrightarrow>
     (\<forall>m data n wh rgba px w h.
        WebPDecodeRGBA lib m data n wh = ((rgba, px), (w, h)) \<and> rgba \<noteq> NULL \<longrightarrow>
          snd (WebPGetInfo lib m data n (0, 0)) = (w, h) \<and>
          length px = nat (sint w) * nat (sint h) * 4)"

text \<open>
  Modelled from the spec: libwebp's decoder is missing from the source. The spec has the
  decoder keep no state across calls (section 3, DecodeContext) and be a deterministic
  transform of the encoded bytes (sections 4.5 and 8); as a contract on the two entry
  points: on the same \<open>data_size\<close> bytes, wherever they lie and whatever else memory holds,
  \<open>WebPGetInfo\<close> answers the same, and \<open>WebPDecodeRGBA\<close> fails or succeeds alike and,
  when it succeeds, reports the same dimensions and the same pixel bytes (the pointer may
  differ).
\<close>

definition libwebp_deterministic :: "libwebp \<Rightarrow> bool" where
  "libwebp_deterministic lib \<longleftrightarrow>
     (\<forall>m1 m2 d1 d2 n wh.
        input_bytes m1 d1 n = input_bytes m2 d2 n \<longrightarrow>
          WebPGetInfo lib m1 d1 n wh = WebPGetInfo lib m2 d2 n wh \<and>
          (fst (fst (WebPDecodeRGBA lib m1 d1 n wh)) = NULL
             \<longleftrightarrow> fst (fst (WebPDecodeRGBA lib m2 d2 n wh)) = NULL) \<and>
          (fst (fst (WebPDecodeRGBA lib m1 d1 n wh)) \<noteq> NULL \<longrightarrow>
             snd (fst (WebPDecodeRGBA lib m1 d1 n wh)) = snd (fst (WebPDecodeRGBA lib m2 d2 n wh)) \<and>
             snd (WebPDecodeRGBA lib m1 d1 n wh) = snd (WebPDecodeRGBA lib m2 d2 n wh)))"

subsection \<open>A stand-in library and a concrete memory\<close>

text \<open>
  To run the wrapper on concrete inputs the library parameter needs a value. \<open>toy_lib\<close>
  decodes a trivial uncompressed format: one byte of width, one byte of height, then four
  bytes (R, G, B, A) for each pixel, row by row. It reads only the \<open>data_size\<close> bytes at
  \<open>data\<close>, fails on a short buffer, and hands out its buffer at address 4096.
\<close>

fun toy_header :: "uint8_t list \<Rightarrow> (cint \<times> cint) option" where
  "toy_header (a # b # rest) = Some (ucast a, ucast b)"
| "toy_header bs = None"

definition toy_GetInfo :: "(nat \<Rightarrow> uint8_t) \<Rightarrow> addr \<Rightarrow> size_t \<Rightarrow> cint \<times> cint \<Rightarrow> cint \<times> (cint \<times> cint)" where
  "toy_GetInfo m data n wh =
     (case toy_header (input_bytes m data n) of
        None \<Rightarrow> (0, wh)
      | Some wh' \<Rightarrow> (1, wh'))"

definition toy_DecodeRGBA ::
  "(nat \<Rightarrow> uint8_t) \<Rightarrow> addr \<Rightarrow> size_t \<Rightarrow> cint \<times> cint \<Rightarrow> (addr \<times> uint8_t list) \<times> (cint \<times> cint)" where
  "toy_DecodeRGBA m data n wh =
     (case toy_header (input_bytes m data n) of
        None \<Rightarrow> ((NULL, []), wh)
      | Some (w, h) \<Rightarrow>
          if unat w * unat h = 0 \<or> length (input_bytes m data n) < 2 + unat w * unat h * 4
          then ((NULL, []), wh)
          else ((4096, take (unat w * unat h * 4) (drop 2 (input_bytes m data n))), (w, h)))"

definition toy_lib :: libwebp where
  "toy_lib = \<lparr>WebPGetInfo = toy_GetInfo, WebPDecodeRGBA = toy_DecodeRGBA\<rparr>"

text \<open>
  A memory holding encoded images: at 16..21 a 1 by 1 image with the pixel
  (10, 20, 30, 255), at 80..85 a copy of it, and at 64..65 a header that declares width 0.
  Every other byte is 7.
\<close>

definition init_mem :: "nat \<Rightarrow> uint8_t" where
  "init_mem = (\<lambda>a. 7)
     (16 := 1, 17 := 1, 18 := 10, 19 := 20, 20 := 30, 21 := 255,
      64 := 0, 65 := 5,
      80 := 1, 81 := 1, 82 := 10, 83 := 20, 84 := 30, 85 := 255)"

definition init_state :: state where
  "init_state = \<lparr>mem = init_mem, bufs = (\<lambda>a. None), trace = []\<rparr>"

text \<open>
  The state after the 1 by 1 image has been decoded once, with the output slots at 32, 36
  and 40 (bytes 32..35, 36..39 and 40..43).
\<close>

definition decoded_state :: state where
  "decoded_state = snd (webp_decode_rgba toy_lib 16 6 32 36 40 init_state)"

section \<open>Loads and stores\<close>

lemma bytes_join:
  "ucast (ucast v :: uint8_t) OR push_bit 8 (ucast (ucast (drop_bit 8 v) :: uint8_t))
     OR push_bit 16 (ucast (ucast (drop_bit 16 v) :: uint8_t))
     OR push_bit 24 (ucast (ucast (drop_bit 24 v) :: uint8_t)) = (v :: 32 word)"
proof (rule bit_word_eqI)
  fix n
  assume "n < LENGTH(32)"
  then consider "n < 8" | "8 \<le> n" "n < 16" | "16 \<le> n" "n < 24" | "24 \<le> n" "n < 32"
    by fastforce
  then show "bit (ucast (ucast v :: uint8_t) OR push_bit 8 (ucast (ucast (drop_bit 8 v) :: uint8_t))
     OR push_bit 16 (ucast (ucast (drop_bit 16 v) :: uint8_t))
     OR push_bit 24 (ucast (ucast (drop_bit 24 v) :: uint8_t)) :: 32 word) n = bit v n"
    by cases (auto simp add: bit_simps)
qed

lemma load32_store32_same: "load32 (store32 p v m) p = v"
  by (simp add: load32_def store32_def bytes_join)

lemma store32_outside: "a \<notin> slot_range p \<Longrightarrow> store32 p v m a = m a"
  by (auto simp add: store32_def slot_range_def)

lemma load32_cong: "(\<And>a. a \<in> slot_range p \<Longrightarrow> m' a = m a) \<Longrightarrow> load32 m' p = load32 m p"
  by (simp add: load32_def slot_range_def)

lemma load32_store32_apart:
  assumes "slot_range p \<inter> slot_range q = {}"
  shows "load32 (store32 q v m) p = load32 m p"
proof (rule load32_cong)
  fix a
  assume "a \<in> slot_range p"
  with assms have "a \<notin> slot_range q" by blast
  then show "store32 q v m a = m a" by (rule store32_outside)
qed

text \<open>After the three stores, slots that share no byte read back what was stored.\<close>

lemma load32_after_stores:
  assumes "slots_apart out wd ht"
  shows "load32 (store32 ht h (store32 wd w (store32 out p m))) out = p"
    and "load32 (store32 ht h (store32 wd w (store32 out p m))) wd = w"
    and "load32 (store32 ht h (store32 wd w (store32 out p m))) ht = h"
proof -
  from assms have ow: "slot_range out \<inter> slot_range wd = {}"
    and oh: "slot_range out \<inter> slot_range ht = {}"
    and wh: "slot_range wd \<inter> slot_range ht = {}"
    by (simp_all add: slots_apart_def)
  show "load32 (store32 ht h (store32 wd w (store32 out p m))) out = p"
    by (simp add: load32_store32_apart [OF oh] load32_store32_apart [OF ow] load32_store32_same)
  show "load32 (store32 ht h (store32 wd w (store32 out p m))) wd = w"
    by (simp add: load32_store32_apart [OF wh] load32_store32_same)
  show "load32 (store32 ht h (store32 wd w (store32 out p m))) ht = h"
    by (rule load32_store32_same)
qed

text \<open>The three stores change no byte outside the three slots.\<close>

lemma stores_outside:
  assumes "a \<notin> output_range out wd ht"
  shows "store32 ht h (store32 wd w (store32 out p m)) a = m a"
  using assms by (simp add: output_range_def store32_outside)

section \<open>The paths through the wrapper\<close>

text \<open>
  A call takes one of four paths: an argument is rejected; \<open>WebPGetInfo\<close> fails or reports
  a dimension that is not positive; \<open>WebPDecodeRGBA\<close> returns \<open>NULL\<close>; or the image is
  decoded and the three stores are made. Each path fixes the return value and the final
  state.
\<close>

lemma webp_decode_rgba_outcome:
  assumes "webp_decode_rgba lib d n out wd ht s = (r, s')"
  obtains
    (null_argument)
      "d = NULL \<or> n = 0 \<or> out = NULL \<or> wd = NULL \<or> ht = NULL"
      "r = 0" "s' = s"
  | (no_info) ok w h where
      "d \<noteq> NULL" "n \<noteq> 0" "out \<noteq> NULL" "wd \<noteq> NULL" "ht \<noteq> NULL"
      "WebPGetInfo lib (mem s) d n (0, 0) = (ok, (w, h))"
      "ok = 0 \<or> sint w \<le> 0 \<or> sint h \<le> 0"
      "r = 0" "s' = s\<lparr>trace := trace s @ [Call_WebPGetInfo d n ok]\<rparr>"
  | (no_pixels) ok w h px wh' where
      "d \<noteq> NULL" "n \<noteq> 0" "out \<noteq> NULL" "wd \<noteq> NULL" "ht \<noteq> NULL"
      "WebPGetInfo lib (mem s) d n (0, 0) = (ok, (w, h))"
      "ok \<noteq> 0" "0 < sint w" "0 < sint h"
      "WebPDecodeRGBA lib (mem s) d n (w, h) = ((NULL, px), wh')"
      "r = 0"
      "s' = s\<lparr>trace := trace s @ [Call_WebPGetInfo d n ok, Call_WebPDecodeRGBA d n NULL]\<rparr>"
  | (decoded) ok w h rgba px w' h' where
      "d \<noteq> NULL" "n \<noteq> 0" "out \<noteq> NULL" "wd \<noteq> NULL" "ht \<noteq> NULL"
      "WebPGetInfo lib (mem s) d n (0, 0) = (ok, (w, h))"
      "ok \<noteq> 0" "0 < sint w" "0 < sint h"
      "WebPDecodeRGBA lib (mem s) d n (w, h) = ((rgba, px), (w', h'))"
      "rgba \<noteq> NULL"
      "r = 1"
      "s' = s\<lparr>mem := store32 ht h' (store32 wd w' (store32 out rgba (mem s))),
              bufs := (bufs s)(rgba := Some px),
              trace := trace s @ [Call_WebPGetInfo d n ok, Call_WebPDecodeRGBA d n rgba,
                 Store out (VPtr rgba), Store wd (VInt w'), Store ht (VInt h')]\<rparr>"
proof (cases "d = NULL \<or> n = 0 \<or> out = NULL \<or> wd = NULL \<or> ht = NULL")
  case True
  with assms have "r = 0" "s' = s" by (simp_all add: webp_decode_rgba_def)
  with True show ?thesis by (rule null_argument)
next
  case False
  obtain ok w h where gi: "WebPGetInfo lib (mem s) d n (0, 0) = (ok, (w, h))"
    by (metis surj_pair)
  show ?thesis
  proof (cases "ok = 0 \<or> sint w \<le> 0 \<or> sint h \<le> 0")
    case True
    with False gi assms
    have "r = 0" "s' = s\<lparr>trace := trace s @ [Call_WebPGetInfo d n ok]\<rparr>"
      by (auto simp add: webp_decode_rgba_def call_WebPGetInfo_def)
    with False gi True show ?thesis by (intro no_info) auto
  next
    case good: False
    obtain rgba px w' h' where
      dec: "WebPDecodeRGBA lib (mem s) d n (w, h) = ((rgba, px), (w', h'))"
      by (metis surj_pair)
    show ?thesis
    proof (cases "rgba = NULL")
      case True
      with False gi good dec assms
      have "r = 0"
        "s' = s\<lparr>trace := trace s @ [Call_WebPGetInfo d n ok, Call_WebPDecodeRGBA d n NULL]\<rparr>"
        by (auto simp add: webp_decode_rgba_def call_WebPGetInfo_def call_WebPDecodeRGBA_def)
      with False gi good dec True show ?thesis by (intro no_pixels) auto
    next
      case nonnull: False
      with False gi good dec assms
      have "r = 1"
        "s' = s\<lparr>mem := store32 ht h' (store32 wd w' (store32 out rgba (mem s))),
              bufs := (bufs s)(rgba := Some px),
              trace := trace s @ [Call_WebPGetInfo d n ok, Call_WebPDecodeRGBA d n rgba,
                 Store out (VPtr rgba), Store wd (VInt w'), Store ht (VInt h')]\<rparr>"
        by (auto simp add: webp_decode_rgba_def call_WebPGetInfo_def call_WebPDecodeRGBA_def
              store_def)
      with False gi good dec nonnull show ?thesis by (intro decoded) auto
    qed
  qed
qed

section \<open>The stand-in library on the concrete memory\<close>

lemma toy_header_range:
  assumes "toy_header bs = Some (w, h)"
  shows "nat (sint w) = unat w \<and> nat (sint h) = unat h"
  using assms
proof (cases bs rule: toy_header.cases)
  case (1 a b rest)
  have "nat (sint (ucast x :: cint)) = unat (ucast x :: cint)" for x :: uint8_t
  proof -
    have up: "uint (ucast x :: cint) = uint x"
      by (rule uint_up_ucast) (simp add: is_up)
    have lo: "- (2 ^ 31) \<le> uint x"
      by (rule order_trans [of _ 0]) simp_all
    have "uint x < 2 ^ 8"
      using uint_bounded [of x] by simp
    then have hi: "uint x < 2 ^ 31"
      by simp
    from lo hi have "sint (ucast x :: cint) = uint (ucast x :: cint)"
      by (simp add: sint_uint up signed_take_bit_int_eq_self)
    then show ?thesis
      by simp
  qed
  with 1 assms show ?thesis by auto
qed simp_all

lemma toy_lib_output_contract: "libwebp_output_contract toy_lib"
  unfolding libwebp_output_contract_def
  by (auto simp add: toy_lib_def toy_DecodeRGBA_def toy_GetInfo_def
        split: option.splits if_splits dest: toy_header_range)

lemma toy_lib_deterministic: "libwebp_deterministic toy_lib"
  unfolding libwebp_deterministic_def
  by (auto simp add: toy_lib_def toy_DecodeRGBA_def toy_GetInfo_def
        split: option.splits if_splits)

lemma init_state_simps:
  "mem init_state = init_mem" "bufs init_state = (\<lambda>a. None)" "trace init_state = []"
  by (simp_all add: init_state_def)

lemma input_at_16: "input_bytes init_mem 16 6 = [1, 1, 10, 20, 30, 255]"
  by (simp add: input_bytes_def init_mem_def upt_rec)

lemma input_at_16_short: "input_bytes init_mem 16 5 = [1, 1, 10, 20, 30]"
  by (simp add: input_bytes_def init_mem_def upt_rec)

lemma input_at_64: "input_bytes init_mem 64 2 = [0, 5]"
  by (simp add: input_bytes_def init_mem_def upt_rec)

lemmas run_defs = webp_decode_rgba_def call_WebPGetInfo_def call_WebPDecodeRGBA_def store_def
  toy_lib_def toy_GetInfo_def toy_DecodeRGBA_def init_state_def

text \<open>The 1 by 1 image decodes; the three output slots are at 32, 36 and 40.\<close>

lemma decode_1x1:
  "webp_decode_rgba toy_lib 16 6 32 36 40 init_state =
     (1, \<lparr>mem = store32 40 1 (store32 36 1 (store32 32 4096 init_mem)),
          bufs = (\<lambda>a. None)(4096 := Some [10, 20, 30, 255]),
          trace = [Call_WebPGetInfo 16 6 1, Call_WebPDecodeRGBA 16 6 4096,
                   Store 32 (VPtr 4096), Store 36 (VInt 1), Store 40 (VInt 1)]\<rparr>)"
  by (simp add: run_defs input_at_16)

text \<open>The same image cut to five bytes: the header is read, the decoder returns \<open>NULL\<close>.\<close>

lemma decode_truncated:
  "webp_decode_rgba toy_lib 16 5 32 36 40 init_state =
     (0, \<lparr>mem = init_mem, bufs = (\<lambda>a. None),
          trace = [Call_WebPGetInfo 16 5 1, Call_WebPDecodeRGBA 16 5 NULL]\<rparr>)"
  by (simp add: run_defs input_at_16_short)

text \<open>The image whose header declares width 0: the decoder is not called.\<close>

lemma decode_zero_width:
  "webp_decode_rgba toy_lib 64 2 32 36 40 init_state =
     (0, \<lparr>mem = init_mem, bufs = (\<lambda>a. None), trace = [Call_WebPGetInfo 64 2 1]\<rparr>)"
  by (simp add: run_defs input_at_64)

text \<open>
  The 1 by 1 image with output slots right next to it: \<open>out_rgba\<close> occupies bytes 12..15,
  \<open>width\<close> bytes 22..25; the image is bytes 16..21.
\<close>

lemma decode_adjacent:
  "webp_decode_rgba toy_lib 16 6 12 22 40 init_state =
     (1, \<lparr>mem = store32 40 1 (store32 22 1 (store32 12 4096 init_mem)),
          bufs = (\<lambda>a. None)(4096 := Some [10, 20, 30, 255]),
          trace = [Call_WebPGetInfo 16 6 1, Call_WebPDecodeRGBA 16 6 4096,
                   Store 12 (VPtr 4096), Store 22 (VInt 1), Store 40 (VInt 1)]\<rparr>)"
  by (simp add: run_defs input_at_16)

text \<open>
  Output slots that overlap each other, at 32, 33 and 34: each later store overwrites three
  bytes of the one before, and bytes 32..37 end up as 0, 1, 1, 0, 0, 0. Read back as 32-bit
  values, \<open>*out_rgba\<close> is 65792 and \<open>*width\<close> is 257; only \<open>*height\<close> is what was
  stored.
\<close>

lemma decode_overlapping:
  "webp_decode_rgba toy_lib 16 6 32 33 34 init_state =
     (1, \<lparr>mem = store32 34 1 (store32 33 1 (store32 32 4096 init_mem)),
          bufs = (\<lambda>a. None)(4096 := Some [10, 20, 30, 255]),
          trace = [Call_WebPGetInfo 16 6 1, Call_WebPDecodeRGBA 16 6 4096,
                   Store 32 (VPtr 4096), Store 33 (VInt 1), Store 34 (VInt 1)]\<rparr>)"
  by (simp add: run_defs input_at_16)

lemma decode_overlapping_reads:
  "map (mem (snd (webp_decode_rgba toy_lib 16 6 32 33 34 init_state))) [32, 33, 34, 35, 36, 37] =
     [0, 1, 1, 0, 0, 0]"
  "load32 (mem (snd (webp_decode_rgba toy_lib 16 6 32 33 34 init_state))) 32 = 65792"
  "load32 (mem (snd (webp_decode_rgba toy_lib 16 6 32 33 34 init_state))) 33 = 257"
  "load32 (mem (snd (webp_decode_rgba toy_lib 16 6 32 33 34 init_state))) 34 = 1"
  by (simp_all add: decode_overlapping load32_def store32_def init_mem_def)

text \<open>The 1 by 1 image again, with \<open>out_rgba\<close> pointing at the first byte of the image.\<close>

lemma decode_aliased:
  "webp_decode_rgba toy_lib 16 6 16 36 40 init_state =
     (1, \<lparr>mem = store32 40 1 (store32 36 1 (store32 16 4096 init_mem)),
          bufs = (\<lambda>a. None)(4096 := Some [10, 20, 30, 255]),
          trace = [Call_WebPGetInfo 16 6 1, Call_WebPDecodeRGBA 16 6 4096,
                   Store 16 (VPtr 4096), Store 36 (VInt 1), Store 40 (VInt 1)]\<rparr>)"
  by (simp add: run_defs input_at_16)

section \<open>Properties\<close>

subsection \<open>Success\<close>

text \<open>
  C1. When \<open>webp_decode_rgba\<close> returns 1, \<open>WebPGetInfo\<close> has reported positive dimensions
  \<open>w\<close> and \<open>h\<close>, \<open>WebPDecodeRGBA\<close> has answered with a non-null pointer \<open>rgba\<close>, and the
  wrapper has stored, through \<open>out_rgba\<close>, \<open>width\<close> and \<open>height\<close> and in this order, that
  pointer and the two dimensions. These are its only stores: the final memory is the
  initial one after the three 32-bit stores, and when no two of the slots share a byte the
  caller reads the pointer and the dimensions back from them. The pointer is that of a
  buffer of width*height*4 bytes (the RGBA8, row-major samples \<open>WebPDecodeRGBA\<close>
  produces), and the dimensions stored are the ones \<open>WebPGetInfo\<close> read from the container
  header. The last two facts are libwebp's: they rest on \<open>libwebp_output_contract\<close>.
\<close>

theorem success_stores_buffer_and_dimensions:
  assumes contract: "libwebp_output_contract lib"
      and call: "webp_decode_rgba lib webp_data data_size out_rgba width height s = (1, s')"
  shows "\<exists>ok w h rgba px.
           WebPGetInfo lib (mem s) webp_data data_size (0, 0) = (ok, (w, h)) \<and>
           ok \<noteq> 0 \<and> 0 < sint w \<and> 0 < sint h \<and>
           WebPDecodeRGBA lib (mem s) webp_data data_size (w, h) = ((rgba, px), (w, h)) \<and>
           rgba \<noteq> NULL \<and> bufs s' rgba = Some px \<and>
           length px = nat (sint w) * nat (sint h) * 4 \<and>
           filter is_Store (new_events s s') =
             [Store out_rgba (VPtr rgba), Store width (VInt w), Store height (VInt h)] \<and>
           mem s' = store32 height h (store32 width w (store32 out_rgba rgba (mem s))) \<and>
           (slots_apart out_rgba width height \<longrightarrow>
              load32 (mem s') out_rgba = rgba \<and> load32 (mem s') width = w \<and>
              load32 (mem s') height = h)"
  using call
proof (cases rule: webp_decode_rgba_outcome)
  case (decoded ok w h rgba px w' h')
  note info = \<open>WebPGetInfo lib (mem s) webp_data data_size (0, 0) = (ok, (w, h))\<close>
    and dec = \<open>WebPDecodeRGBA lib (mem s) webp_data data_size (w, h) = ((rgba, px), (w', h'))\<close>
    and final = \<open>s' = s\<lparr>mem := store32 height h' (store32 width w' (store32 out_rgba rgba (mem s))),
              bufs := (bufs s)(rgba := Some px),
              trace := trace s @ [Call_WebPGetInfo webp_data data_size ok,
                 Call_WebPDecodeRGBA webp_data data_size rgba,
                 Store out_rgba (VPtr rgba), Store width (VInt w'), Store height (VInt h')]\<rparr>\<close>
  from contract dec \<open>rgba \<noteq> NULL\<close>
  have "snd (WebPGetInfo lib (mem s) webp_data data_size (0, 0)) = (w', h')"
    and len: "length px = nat (sint w') * nat (sint h') * 4"
    unfolding libwebp_output_contract_def by blast+
  with info have dims: "w' = w" "h' = h"
    by simp_all
  from final have buf: "bufs s' rgba = Some px"
    and stores: "filter is_Store (new_events s s') =
             [Store out_rgba (VPtr rgba), Store width (VInt w'), Store height (VInt h')]"
    and memory: "mem s' = store32 height h' (store32 width w' (store32 out_rgba rgba (mem s)))"
    by (simp_all add: new_events_def)
  have reads: "load32 (mem s') out_rgba = rgba \<and> load32 (mem s') width = w' \<and>
      load32 (mem s') height = h'" if "slots_apart out_rgba width height"
    unfolding memory using load32_after_stores [OF that] by blast
  from info dec dims len buf stores memory reads
    \<open>ok \<noteq> 0\<close> \<open>0 < sint w\<close> \<open>0 < sint h\<close> \<open>rgba \<noteq> NULL\<close>
  show ?thesis by auto
qed simp_all

theorem success_stores_buffer_and_dimensions_witness:
  "libwebp_output_contract toy_lib \<and>
   webp_decode_rgba toy_lib 16 6 32 36 40 init_state = (1, decoded_state) \<and>
   (\<exists>ok w h rgba px.
      WebPGetInfo toy_lib (mem init_state) 16 6 (0, 0) = (ok, (w, h)) \<and>
      ok \<noteq> 0 \<and> 0 < sint w \<and> 0 < sint h \<and>
      WebPDecodeRGBA toy_lib (mem init_state) 16 6 (w, h) = ((rgba, px), (w, h)) \<and>
      rgba \<noteq> NULL \<and> bufs decoded_state rgba = Some px \<and>
      length px = nat (sint w) * nat (sint h) * 4 \<and>
      filter is_Store (new_events init_state decoded_state) =
        [Store 32 (VPtr rgba), Store 36 (VInt w), Store 40 (VInt h)] \<and>
      mem decoded_state = store32 40 h (store32 36 w (store32 32 rgba (mem init_state))) \<and>
      load32 (mem decoded_state) 32 = rgba \<and> load32 (mem decoded_state) 36 = w \<and>
      load32 (mem decoded_state) 40 = h) \<and>
   slots_apart 32 36 40 \<and>
   load32 (mem decoded_state) 32 = 4096 \<and> load32 (mem decoded_state) 36 = 1 \<and>
   load32 (mem decoded_state) 40 = 1 \<and> bufs decoded_state 4096 = Some [10, 20, 30, 255] \<and>
   map (mem decoded_state) [32, 33, 34, 35, 36, 37, 38, 39, 40, 41, 42, 43] =
     [0, 16, 0, 0, 1, 0, 0, 0, 1, 0, 0, 0]"
proof -
  have call: "webp_decode_rgba toy_lib 16 6 32 36 40 init_state = (1, decoded_state)"
    by (simp add: decoded_state_def decode_1x1)
  have apart: "slots_apart 32 36 40"
    by (simp add: slots_apart_def slot_range_def)
  have cells: "load32 (mem decoded_state) 32 = 4096" "load32 (mem decoded_state) 36 = 1"
    "load32 (mem decoded_state) 40 = 1" "bufs decoded_state 4096 = Some [10, 20, 30, 255]"
    "map (mem decoded_state) [32, 33, 34, 35, 36, 37, 38, 39, 40, 41, 42, 43] =
       [0, 16, 0, 0, 1, 0, 0, 0, 1, 0, 0, 0]"
    by (simp_all add: decoded_state_def decode_1x1 load32_def store32_def init_mem_def)
  from success_stores_buffer_and_dimensions [OF toy_lib_output_contract call]
    toy_lib_output_contract call apart cells
  show ?thesis by blast
qed

subsection \<open>Failure\<close>

text \<open>
  C2. When the decode does not succeed (the return value is not 1) the wrapper returns 0,
  it has made no store, no pixel buffer has come into being, and the caller's memory, the
  slots at \<open>out_rgba\<close>, \<open>width\<close> and \<open>height\<close> among it, is as it was: there is no partial
  output.
\<close>

theorem failure_leaves_outputs_unwritten:
  assumes call: "webp_decode_rgba lib webp_data data_size out_rgba width height s = (r, s')"
      and failed: "r \<noteq> 1"
  shows "r = 0 \<and> filter is_Store (new_events s s') = [] \<and> bufs s' = bufs s \<and> mem s' = mem s \<and>
         load32 (mem s') out_rgba = load32 (mem s) out_rgba \<and>
         load32 (mem s') width = load32 (mem s) width \<and>
         load32 (mem s') height = load32 (mem s) height"
  using call
proof (cases rule: webp_decode_rgba_outcome)
  case null_argument
  then show ?thesis by (simp add: new_events_def)
next
  case (no_info ok w h)
  then show ?thesis by (simp add: new_events_def)
next
  case (no_pixels ok w h px wh')
  then show ?thesis by (simp add: new_events_def)
next
  case (decoded ok w h rgba px w' h')
  with failed show ?thesis by simp
qed

theorem failure_leaves_outputs_unwritten_witness:
  "fst (webp_decode_rgba toy_lib 16 5 32 36 40 init_state) \<noteq> 1 \<and>
   fst (webp_decode_rgba toy_lib 16 5 32 36 40 init_state) = 0 \<and>
   filter is_Store
     (new_events init_state (snd (webp_decode_rgba toy_lib 16 5 32 36 40 init_state))) = [] \<and>
   bufs (snd (webp_decode_rgba toy_lib 16 5 32 36 40 init_state)) = bufs init_state \<and>
   mem (snd (webp_decode_rgba toy_lib 16 5 32 36 40 init_state)) = mem init_state \<and>
   load32 (mem (snd (webp_decode_rgba toy_lib 16 5 32 36 40 init_state))) 32 =
     load32 (mem init_state) 32 \<and>
   load32 (mem (snd (webp_decode_rgba toy_lib 16 5 32 36 40 init_state))) 36 =
     load32 (mem init_state) 36 \<and>
   load32 (mem (snd (webp_decode_rgba toy_lib 16 5 32 36 40 init_state))) 40 =
     load32 (mem init_state) 40"
proof -
  have failed: "fst (webp_decode_rgba toy_lib 16 5 32 36 40 init_state) \<noteq> 1"
    by (simp add: decode_truncated)
  have call: "webp_decode_rgba toy_lib 16 5 32 36 40 init_state =
      (fst (webp_decode_rgba toy_lib 16 5 32 36 40 init_state),
       snd (webp_decode_rgba toy_lib 16 5 32 36 40 init_state))"
    by simp
  from failure_leaves_outputs_unwritten [OF call failed] failed show ?thesis
    by blast
qed

text \<open>
  C3. A call with a zero-length input (\<open>data_size = 0\<close>) fails: the wrapper returns 0, and
  it does so before anything else happens (the state, its trace included, is the one it was
  given), so no image of dimensions 0 by 0 is reported.
\<close>

theorem zero_length_input_fails:
  assumes "data_size = 0"
  shows "webp_decode_rgba lib webp_data data_size out_rgba width height s = (0, s)"
  using assms by (simp add: webp_decode_rgba_def)

theorem zero_length_input_fails_witness:
  "(0 :: size_t) = 0 \<and> webp_decode_rgba toy_lib 16 0 32 36 40 init_state = (0, init_state)"
  using zero_length_input_fails [of 0 toy_lib 16 32 36 40 init_state] by simp

text \<open>
  C4. When \<open>WebPGetInfo\<close> reports a width or a height that is not positive, the wrapper
  returns 0 and \<open>WebPDecodeRGBA\<close> is not called; memory and pixel buffers are untouched.
\<close>

theorem nonpositive_dimensions_rejected:
  assumes info: "WebPGetInfo lib (mem s) webp_data data_size (0, 0) = (ok, (w, h))"
      and nonpos: "sint w \<le> 0 \<or> sint h \<le> 0"
      and call: "webp_decode_rgba lib webp_data data_size out_rgba width height s = (r, s')"
  shows "r = 0 \<and> filter is_Call_WebPDecodeRGBA (new_events s s') = [] \<and>
         bufs s' = bufs s \<and> mem s' = mem s"
  using call
proof (cases rule: webp_decode_rgba_outcome)
  case null_argument
  then show ?thesis by (simp add: new_events_def)
next
  case (no_info ok0 w0 h0)
  then show ?thesis by (simp add: new_events_def)
next
  case (no_pixels ok0 w0 h0 px wh')
  with info nonpos show ?thesis by auto
next
  case (decoded ok0 w0 h0 rgba px w' h')
  with info nonpos show ?thesis by auto
qed

theorem nonpositive_dimensions_rejected_witness:
  "WebPGetInfo toy_lib (mem init_state) 64 2 (0, 0) = (1, (0, 5)) \<and>
   (sint (0 :: cint) \<le> 0 \<or> sint (5 :: cint) \<le> 0) \<and>
   fst (webp_decode_rgba toy_lib 64 2 32 36 40 init_state) = 0 \<and>
   filter is_Call_WebPDecodeRGBA
     (new_events init_state (snd (webp_decode_rgba toy_lib 64 2 32 36 40 init_state))) = [] \<and>
   bufs (snd (webp_decode_rgba toy_lib 64 2 32 36 40 init_state)) = bufs init_state \<and>
   mem (snd (webp_decode_rgba toy_lib 64 2 32 36 40 init_state)) = mem init_state"
proof -
  have info: "WebPGetInfo toy_lib (mem init_state) 64 2 (0, 0) = (1, (0, 5))"
    by (simp add: toy_lib_def toy_GetInfo_def init_state_simps input_at_64)
  have nonpos: "sint (0 :: cint) \<le> 0 \<or> sint (5 :: cint) \<le> 0"
    by simp
  have call: "webp_decode_rgba toy_lib 64 2 32 36 40 init_state =
      (fst (webp_decode_rgba toy_lib 64 2 32 36 40 init_state),
       snd (webp_decode_rgba toy_lib 64 2 32 36 40 init_state))"
    by simp
  from nonpositive_dimensions_rejected [OF info nonpos call] info nonpos show ?thesis
    by blast
qed

subsection \<open>Determinism\<close>

text \<open>
  C6. Take two calls on the same encoded bytes: the same \<open>data_size\<close>, and the same
  bytes at the two \<open>webp_data\<close> pointers. The states may differ in everything
  else and the pointers may differ too, as long as each is null in both calls or in neither.
  Then the two calls return the same value, store the same dimensions and hand over pixel
  buffers with the same contents. The wrapper consults nothing but its arguments and the
  library; that the library's answers depend on the encoded bytes alone is
  \<open>libwebp_deterministic\<close>.
\<close>

theorem decode_deterministic:
  assumes det: "libwebp_deterministic lib"
      and same: "input_bytes (mem s1) data1 data_size = input_bytes (mem s2) data2 data_size"
      and nulls: "(data1 = NULL) = (data2 = NULL)" "(out1 = NULL) = (out2 = NULL)"
                 "(width1 = NULL) = (width2 = NULL)" "(height1 = NULL) = (height2 = NULL)"
      and call1: "webp_decode_rgba lib data1 data_size out1 width1 height1 s1 = (r1, s1')"
      and call2: "webp_decode_rgba lib data2 data_size out2 width2 height2 s2 = (r2, s2')"
  shows "r1 = r2 \<and>
         dimensions_written (new_events s1 s1') = dimensions_written (new_events s2 s2') \<and>
         pixels_written (bufs s1') (new_events s1 s1') = pixels_written (bufs s2') (new_events s2 s2')"
proof -
  have G: "WebPGetInfo lib (mem s1) data1 data_size (0, 0)
         = WebPGetInfo lib (mem s2) data2 data_size (0, 0)"
    using det same unfolding libwebp_deterministic_def by blast
  have D: "fst (fst (WebPDecodeRGBA lib (mem s1) data1 data_size wh)) = NULL
             \<longleftrightarrow> fst (fst (WebPDecodeRGBA lib (mem s2) data2 data_size wh)) = NULL" for wh
    using det same unfolding libwebp_deterministic_def by blast
  have P: "snd (fst (WebPDecodeRGBA lib (mem s1) data1 data_size wh))
               = snd (fst (WebPDecodeRGBA lib (mem s2) data2 data_size wh)) \<and>
           snd (WebPDecodeRGBA lib (mem s1) data1 data_size wh)
               = snd (WebPDecodeRGBA lib (mem s2) data2 data_size wh)"
    if "fst (fst (WebPDecodeRGBA lib (mem s1) data1 data_size wh)) \<noteq> NULL" for wh
    using det same that unfolding libwebp_deterministic_def by blast
  from call1 show ?thesis
  proof (cases rule: webp_decode_rgba_outcome)
    case null_argument
    with nulls have "data2 = NULL \<or> data_size = 0 \<or> out2 = NULL \<or> width2 = NULL \<or> height2 = NULL"
      by blast
    with call2 have "r2 = 0" "s2' = s2"
      by (simp_all add: webp_decode_rgba_def)
    with null_argument show ?thesis
      by (simp add: new_events_def)
  next
    case a: (no_info ok w h)
    from call2 show ?thesis
    proof (cases rule: webp_decode_rgba_outcome)
      case null_argument
      with a nulls show ?thesis by blast
    next
      case (no_info ok2 w2 h2)
      with a show ?thesis by (simp add: new_events_def)
    qed (use a G in auto)
  next
    case a: (no_pixels ok w h px wh')
    from call2 show ?thesis
    proof (cases rule: webp_decode_rgba_outcome)
      case null_argument
      with a nulls show ?thesis by blast
    next
      case (no_pixels ok2 w2 h2 px2 wh2)
      with a show ?thesis by (simp add: new_events_def)
    next
      case (decoded ok2 w2 h2 rgba px2 w2' h2')
      with a G D [of "(w, h)"] show ?thesis by auto
    qed (use a G in auto)
  next
    case a: (decoded ok w h rgba px w' h')
    from call2 show ?thesis
    proof (cases rule: webp_decode_rgba_outcome)
      case null_argument
      with a nulls show ?thesis by blast
    next
      case (no_pixels ok2 w2 h2 px2 wh2)
      with a G D [of "(w, h)"] show ?thesis by auto
    next
      case b: (decoded ok2 w2 h2 rgba2 px2 w2' h2')
      with a G have "w2 = w" "h2 = h" by auto
      with a b P [of "(w, h)"] have "px2 = px" "w2' = w'" "h2' = h'" by auto
      with a b show ?thesis by (simp add: new_events_def)
    qed (use a G in auto)
  qed
qed

text \<open>
  The 1 by 1 image decoded from its bytes at 16 in the initial state, and its copy at 80
  decoded, into other output slots, in the state the first decode left.
\<close>

theorem decode_deterministic_witness:
  "libwebp_deterministic toy_lib \<and>
   input_bytes (mem init_state) 16 6 = input_bytes (mem decoded_state) 80 6 \<and>
   ((16 :: addr) = NULL) = ((80 :: addr) = NULL) \<and> ((32 :: addr) = NULL) = ((44 :: addr) = NULL) \<and>
   ((36 :: addr) = NULL) = ((48 :: addr) = NULL) \<and> ((40 :: addr) = NULL) = ((52 :: addr) = NULL) \<and>
   fst (webp_decode_rgba toy_lib 16 6 32 36 40 init_state) = 1 \<and>
   dimensions_written
       (new_events init_state (snd (webp_decode_rgba toy_lib 16 6 32 36 40 init_state))) = [1, 1] \<and>
   pixels_written (bufs (snd (webp_decode_rgba toy_lib 16 6 32 36 40 init_state)))
       (new_events init_state (snd (webp_decode_rgba toy_lib 16 6 32 36 40 init_state))) =
     [Some [10, 20, 30, 255]] \<and>
   fst (webp_decode_rgba toy_lib 16 6 32 36 40 init_state) =
     fst (webp_decode_rgba toy_lib 80 6 44 48 52 decoded_state) \<and>
   dimensions_written
       (new_events init_state (snd (webp_decode_rgba toy_lib 16 6 32 36 40 init_state))) =
     dimensions_written
       (new_events decoded_state (snd (webp_decode_rgba toy_lib 80 6 44 48 52 decoded_state))) \<and>
   pixels_written (bufs (snd (webp_decode_rgba toy_lib 16 6 32 36 40 init_state)))
       (new_events init_state (snd (webp_decode_rgba toy_lib 16 6 32 36 40 init_state))) =
     pixels_written (bufs (snd (webp_decode_rgba toy_lib 80 6 44 48 52 decoded_state)))
       (new_events decoded_state (snd (webp_decode_rgba toy_lib 80 6 44 48 52 decoded_state)))"
proof -
  have same: "input_bytes (mem init_state) 16 6 = input_bytes (mem decoded_state) 80 6"
    by (simp add: decoded_state_def decode_1x1 init_state_simps input_at_16)
       (simp add: input_bytes_def init_mem_def store32_def upt_rec)
  have nulls: "((16 :: addr) = NULL) = ((80 :: addr) = NULL)"
    "((32 :: addr) = NULL) = ((44 :: addr) = NULL)"
    "((36 :: addr) = NULL) = ((48 :: addr) = NULL)"
    "((40 :: addr) = NULL) = ((52 :: addr) = NULL)"
    by simp_all
  have call1: "webp_decode_rgba toy_lib 16 6 32 36 40 init_state =
      (fst (webp_decode_rgba toy_lib 16 6 32 36 40 init_state),
       snd (webp_decode_rgba toy_lib 16 6 32 36 40 init_state))"
    by simp
  have call2: "webp_decode_rgba toy_lib 80 6 44 48 52 decoded_state =
      (fst (webp_decode_rgba toy_lib 80 6 44 48 52 decoded_state),
       snd (webp_decode_rgba toy_lib 80 6 44 48 52 decoded_state))"
    by simp
  have first: "fst (webp_decode_rgba toy_lib 16 6 32 36 40 init_state) = 1"
    "dimensions_written
       (new_events init_state (snd (webp_decode_rgba toy_lib 16 6 32 36 40 init_state))) = [1, 1]"
    "pixels_written (bufs (snd (webp_decode_rgba toy_lib 16 6 32 36 40 init_state)))
       (new_events init_state (snd (webp_decode_rgba toy_lib 16 6 32 36 40 init_state))) =
     [Some [10, 20, 30, 255]]"
    by (simp_all add: decode_1x1 new_events_def init_state_simps)
  from decode_deterministic [OF toy_lib_deterministic same nulls call1 call2]
    toy_lib_deterministic same nulls first
  show ?thesis by blast
qed

subsection \<open>The input bytes\<close>

text \<open>
  C7, as amended. The wrapper never writes through \<open>webp_data\<close>: a call changes no byte
  of the caller's memory other than the twelve bytes of the slots at \<open>out_rgba\<close>, \<open>width\<close>
  and \<open>height\<close> (four bytes each). Hence the encoded image is the same before and after
  every call that fails, and before and after every call in which none of those twelve
  bytes is one of the \<open>data_size\<close> bytes at \<open>webp_data\<close>.
\<close>

theorem input_changes_only_through_output_slots:
  assumes call: "webp_decode_rgba lib webp_data data_size out_rgba width height s = (r, s')"
  shows "(\<forall>a. a \<notin> output_range out_rgba width height \<longrightarrow> mem s' a = mem s a) \<and>
         (r \<noteq> 1 \<or> output_range out_rgba width height \<inter> input_range webp_data data_size = {} \<longrightarrow>
            input_bytes (mem s') webp_data data_size = input_bytes (mem s) webp_data data_size)"
proof -
  have frame: "mem s' a = mem s a" if "a \<notin> output_range out_rgba width height" for a
    using call that by (cases rule: webp_decode_rgba_outcome) (simp_all add: stores_outside)
  have fail: "mem s' = mem s" if "r \<noteq> 1"
    using call that by (cases rule: webp_decode_rgba_outcome) simp_all
  have "input_bytes (mem s') webp_data data_size = input_bytes (mem s) webp_data data_size"
    if apart: "output_range out_rgba width height \<inter> input_range webp_data data_size = {}"
  proof -
    have "mem s' (unat webp_data + i) = mem s (unat webp_data + i)" if "i < unat data_size" for i
    proof (rule frame)
      from that have "unat webp_data + i \<in> input_range webp_data data_size"
        by (simp add: input_range_def)
      with apart show "unat webp_data + i \<notin> output_range out_rgba width height"
        by blast
    qed
    then show ?thesis
      by (simp add: input_bytes_def)
  qed
  with frame fail show ?thesis by auto
qed

text \<open>
  The output slots may lie right next to the image: here \<open>out_rgba\<close> ends at byte 15 and
  \<open>width\<close> starts at byte 22, around the image in bytes 16..21.
\<close>

theorem input_changes_only_through_output_slots_witness:
  "fst (webp_decode_rgba toy_lib 16 6 12 22 40 init_state) = 1 \<and>
   output_range 12 22 40 \<inter> input_range 16 6 = {} \<and>
   50 \<notin> output_range 12 22 40 \<and>
   mem (snd (webp_decode_rgba toy_lib 16 6 12 22 40 init_state)) 50 = mem init_state 50 \<and>
   input_bytes (mem (snd (webp_decode_rgba toy_lib 16 6 12 22 40 init_state))) 16 6 =
     input_bytes (mem init_state) 16 6 \<and>
   input_bytes (mem (snd (webp_decode_rgba toy_lib 16 6 12 22 40 init_state))) 16 6 =
     [1, 1, 10, 20, 30, 255] \<and>
   map (mem (snd (webp_decode_rgba toy_lib 16 6 12 22 40 init_state)))
     [12, 13, 14, 15, 22, 23, 24, 25] = [0, 16, 0, 0, 1, 0, 0, 0]"
proof -
  have call: "webp_decode_rgba toy_lib 16 6 12 22 40 init_state =
      (fst (webp_decode_rgba toy_lib 16 6 12 22 40 init_state),
       snd (webp_decode_rgba toy_lib 16 6 12 22 40 init_state))"
    by simp
  have ok: "fst (webp_decode_rgba toy_lib 16 6 12 22 40 init_state) = 1"
    by (simp add: decode_adjacent)
  have apart: "output_range 12 22 40 \<inter> input_range 16 6 = {}"
    by (auto simp add: output_range_def slot_range_def input_range_def)
  have outside: "50 \<notin> output_range 12 22 40"
    by (simp add: output_range_def slot_range_def)
  have cells: "input_bytes (mem (snd (webp_decode_rgba toy_lib 16 6 12 22 40 init_state))) 16 6 =
     [1, 1, 10, 20, 30, 255]"
    "map (mem (snd (webp_decode_rgba toy_lib 16 6 12 22 40 init_state)))
     [12, 13, 14, 15, 22, 23, 24, 25] = [0, 16, 0, 0, 1, 0, 0, 0]"
    by (simp_all add: decode_adjacent input_bytes_def upt_rec store32_def init_mem_def)
  from input_changes_only_through_output_slots [OF call] ok apart outside cells show ?thesis
    by simp
qed

text \<open>
  C7 as stated, for every call, does not hold. Nothing keeps the output pointers apart
  from the input: in the call below \<open>out_rgba\<close> is the address of the first byte of the
  image. The image decodes, the wrapper returns 1, and the store \<^verbatim>\<open>*out_rgba = rgba\<close> has
  replaced the first four bytes of the image by the bytes of the buffer pointer 4096.
\<close>

theorem input_mutated_when_out_rgba_aliases_input:
  "fst (webp_decode_rgba toy_lib 16 6 16 36 40 init_state) = 1 \<and>
   input_bytes (mem init_state) 16 6 = [1, 1, 10, 20, 30, 255] \<and>
   input_bytes (mem (snd (webp_decode_rgba toy_lib 16 6 16 36 40 init_state))) 16 6 =
     [0, 16, 0, 0, 30, 255] \<and>
   input_bytes (mem (snd (webp_decode_rgba toy_lib 16 6 16 36 40 init_state))) 16 6 \<noteq>
     input_bytes (mem init_state) 16 6"
  by (simp add: decode_aliased init_state_simps input_at_16)
     (simp add: input_bytes_def upt_rec store32_def init_mem_def)

subsection \<open>Argument checks and the return value\<close>

text \<open>
  C9. When \<open>webp_data\<close>, \<open>out_rgba\<close>, \<open>width\<close> or \<open>height\<close> is null the wrapper returns 0
  at once: the state it returns is the state it was given, so nothing was added to the
  trace (no library call, no store through a pointer) and memory was not touched.
\<close>

theorem null_argument_returns_zero:
  assumes "webp_data = NULL \<or> out_rgba = NULL \<or> width = NULL \<or> height = NULL"
  shows "webp_decode_rgba lib webp_data data_size out_rgba width height s = (0, s) \<and>
         new_events s (snd (webp_decode_rgba lib webp_data data_size out_rgba width height s)) = []"
  using assms by (auto simp add: webp_decode_rgba_def new_events_def)

theorem null_argument_returns_zero_witness:
  "((16 :: addr) = NULL \<or> (NULL :: addr) = NULL \<or> (36 :: addr) = NULL \<or> (40 :: addr) = NULL) \<and>
   webp_decode_rgba toy_lib 16 6 NULL 36 40 init_state = (0, init_state) \<and>
   new_events init_state (snd (webp_decode_rgba toy_lib 16 6 NULL 36 40 init_state)) = []"
proof -
  have null: "(16 :: addr) = NULL \<or> (NULL :: addr) = NULL \<or> (36 :: addr) = NULL \<or> (40 :: addr) = NULL"
    by simp
  from null_argument_returns_zero [OF null, of toy_lib 6 init_state] null show ?thesis
    by blast
qed

text \<open>
  C10. The return value is 0 or 1. It is 1 exactly when, in this call, \<open>WebPGetInfo\<close>
  reported positive dimensions, \<open>WebPDecodeRGBA\<close> then answered with a non-null pointer
  \<open>rgba\<close>, and the wrapper stored that pointer through \<open>out_rgba\<close> (and then the
  dimensions through \<open>width\<close> and \<open>height\<close>): the call's effects are the two library calls
  followed by the three stores, the final memory is the initial one after these stores,
  and \<open>*out_rgba\<close> reads back \<open>rgba\<close> unless one of the two later stores overlaps it. When
  the return value is 0 nothing has been stored and memory is unchanged.
\<close>

theorem returns_one_iff_pointer_stored:
  assumes call: "webp_decode_rgba lib webp_data data_size out_rgba width height s = (r, s')"
  shows "(r = 0 \<or> r = 1) \<and>
         (r = 1 \<longleftrightarrow>
            (\<exists>ok w h rgba px w' h'.
               WebPGetInfo lib (mem s) webp_data data_size (0, 0) = (ok, (w, h)) \<and>
               ok \<noteq> 0 \<and> 0 < sint w \<and> 0 < sint h \<and>
               WebPDecodeRGBA lib (mem s) webp_data data_size (w, h) = ((rgba, px), (w', h')) \<and>
               rgba \<noteq> NULL \<and>
               new_events s s' =
                 [Call_WebPGetInfo webp_data data_size ok,
                  Call_WebPDecodeRGBA webp_data data_size rgba,
                  Store out_rgba (VPtr rgba), Store width (VInt w'), Store height (VInt h')] \<and>
               mem s' = store32 height h' (store32 width w' (store32 out_rgba rgba (mem s))) \<and>
               (slot_range out_rgba \<inter> (slot_range width \<union> slot_range height) = {} \<longrightarrow>
                  load32 (mem s') out_rgba = rgba))) \<and>
         (r = 0 \<longrightarrow> mem s' = mem s \<and> filter is_Store (new_events s s') = [])"
  using call
proof (cases rule: webp_decode_rgba_outcome)
  case null_argument
  then show ?thesis by (simp add: new_events_def)
next
  case (no_info ok w h)
  then show ?thesis by (simp add: new_events_def)
next
  case (no_pixels ok w h px wh')
  then show ?thesis by (simp add: new_events_def)
next
  case (decoded ok w h rgba px w' h')
  note final = \<open>s' = s\<lparr>mem := store32 height h' (store32 width w' (store32 out_rgba rgba (mem s))),
              bufs := (bufs s)(rgba := Some px),
              trace := trace s @ [Call_WebPGetInfo webp_data data_size ok,
                 Call_WebPDecodeRGBA webp_data data_size rgba,
                 Store out_rgba (VPtr rgba), Store width (VInt w'), Store height (VInt h')]\<rparr>\<close>
  from final have events: "new_events s s' =
      [Call_WebPGetInfo webp_data data_size ok, Call_WebPDecodeRGBA webp_data data_size rgba,
       Store out_rgba (VPtr rgba), Store width (VInt w'), Store height (VInt h')]"
    and memory: "mem s' = store32 height h' (store32 width w' (store32 out_rgba rgba (mem s)))"
    by (simp_all add: new_events_def)
  have reads: "load32 (mem s') out_rgba = rgba"
    if "slot_range out_rgba \<inter> (slot_range width \<union> slot_range height) = {}"
  proof -
    from that have "slot_range out_rgba \<inter> slot_range width = {}"
      and "slot_range out_rgba \<inter> slot_range height = {}"
      by blast+
    then show ?thesis
      unfolding memory by (simp add: load32_store32_apart load32_store32_same)
  qed
  from decoded(6-11) events memory reads
  have "\<exists>ok w h rgba px w' h'.
               WebPGetInfo lib (mem s) webp_data data_size (0, 0) = (ok, (w, h)) \<and>
               ok \<noteq> 0 \<and> 0 < sint w \<and> 0 < sint h \<and>
               WebPDecodeRGBA lib (mem s) webp_data data_size (w, h) = ((rgba, px), (w', h')) \<and>
               rgba \<noteq> NULL \<and>
               new_events s s' =
                 [Call_WebPGetInfo webp_data data_size ok,
                  Call_WebPDecodeRGBA webp_data data_size rgba,
                  Store out_rgba (VPtr rgba), Store width (VInt w'), Store height (VInt h')] \<and>
               mem s' = store32 height h' (store32 width w' (store32 out_rgba rgba (mem s))) \<and>
               (slot_range out_rgba \<inter> (slot_range width \<union> slot_range height) = {} \<longrightarrow>
                  load32 (mem s') out_rgba = rgba)"
    by blast
  with \<open>r = 1\<close> show ?thesis by simp
qed

text \<open>
  The 1 by 1 image decodes with return value 1 and the pointer 4096 is read back from
  \<open>out_rgba\<close>; cut to five bytes it is rejected by the decoder, the return value is 0 and
  the slot at \<open>out_rgba\<close> still holds the four bytes it held.
\<close>

theorem returns_one_iff_pointer_stored_witness:
  "webp_decode_rgba toy_lib 16 6 32 36 40 init_state = (1, decoded_state) \<and>
   ((1 :: cint) = 0 \<or> (1 :: cint) = 1) \<and>
   (\<exists>ok w h rgba px w' h'.
      WebPGetInfo toy_lib (mem init_state) 16 6 (0, 0) = (ok, (w, h)) \<and>
      ok \<noteq> 0 \<and> 0 < sint w \<and> 0 < sint h \<and>
      WebPDecodeRGBA toy_lib (mem init_state) 16 6 (w, h) = ((rgba, px), (w', h')) \<and>
      rgba \<noteq> NULL \<and>
      new_events init_state decoded_state =
        [Call_WebPGetInfo 16 6 ok, Call_WebPDecodeRGBA 16 6 rgba,
         Store 32 (VPtr rgba), Store 36 (VInt w'), Store 40 (VInt h')] \<and>
      mem decoded_state = store32 40 h' (store32 36 w' (store32 32 rgba (mem init_state))) \<and>
      load32 (mem decoded_state) 32 = rgba) \<and>
   slot_range 32 \<inter> (slot_range 36 \<union> slot_range 40) = {} \<and>
   load32 (mem decoded_state) 32 = 4096 \<and>
   WebPDecodeRGBA toy_lib (mem init_state) 16 6 (1, 1) = ((4096, [10, 20, 30, 255]), (1, 1)) \<and>
   fst (webp_decode_rgba toy_lib 16 5 32 36 40 init_state) = 0 \<and>
   load32 (mem (snd (webp_decode_rgba toy_lib 16 5 32 36 40 init_state))) 32 = 117901063"
proof -
  have call: "webp_decode_rgba toy_lib 16 6 32 36 40 init_state = (1, decoded_state)"
    by (simp add: decoded_state_def decode_1x1)
  have apart: "slot_range 32 \<inter> (slot_range 36 \<union> slot_range 40) = {}"
    by (auto simp add: slot_range_def)
  have cells: "load32 (mem decoded_state) 32 = 4096"
    "fst (webp_decode_rgba toy_lib 16 5 32 36 40 init_state) = 0"
    "load32 (mem (snd (webp_decode_rgba toy_lib 16 5 32 36 40 init_state))) 32 = 117901063"
    by (simp_all add: decoded_state_def decode_1x1 decode_truncated load32_def store32_def
          init_mem_def)
  have answer:
    "WebPDecodeRGBA toy_lib (mem init_state) 16 6 (1, 1) = ((4096, [10, 20, 30, 255]), (1, 1))"
    by (simp add: toy_lib_def toy_DecodeRGBA_def init_state_simps input_at_16)
  from returns_one_iff_pointer_stored [OF call] call apart cells answer show ?thesis
    by blast
qed

subsection \<open>What is left to libwebp\<close>

text \<open>
  C5 (every truncation of a valid encoded buffer is rejected, without a crash or a read out
  of bounds) and C8 (an encoder followed by the decoder gives back the pixels) are
  properties of libwebp's parser and codec and of an encoder. None of them is in the
  source, and the wrapper only passes on what the library answers: a failed
  \<open>WebPGetInfo\<close> or a \<open>NULL\<close> from \<open>WebPDecodeRGBA\<close> becomes the return value 0 (C2,
  C10), a decoded buffer is handed over as it is (C1). No theorem is stated for them.
\<close>

end
